theory Spec2Isabelle
  imports Main "HOL-Library.Word"
begin

unbundle bit_operations_syntax

section \<open>Lock manager (src/project/src/concurrency/lock_manager.cpp)\<close>

text \<open>
  The file holds two revisions of the lock manager. Both are embedded; the suffixes
  \<open>_v1\<close> and \<open>_v2\<close> name the first and the second revision in the file.
  A call runs under the manager's mutex, so it is modelled as one atomic step on the
  lock table and the transaction. A call that reaches \<open>cond.wait\<close> with a false
  predicate does not return in that step: its result is \<open>Blocks\<close>, with the state as
  it is when the thread goes to sleep. A failed \<open>assert\<close> is \<open>AssertionFailure\<close>,
  \<open>front()\<close> of an empty list is \<open>UndefinedFront\<close>.
\<close>

datatype TransactionState = GROWING | SHRINKING | COMMITTED | ABORTED

datatype LockMode = SHARED | EXCLUSIVE

type_synonym txn_id_t = nat

type_synonym RID = "int \<times> int"

record Transaction =
  txn_id :: txn_id_t
  state :: TransactionState
  shared_lock_set :: "RID set"
  exclusive_lock_set :: "RID set"

record Request =
  r_txn_id :: txn_id_t
  mode :: LockMode
  granted :: bool

text \<open>
  \<open>Waiting\<close> of the first revision. The C++ field \<open>list\<close> is called \<open>queue\<close> here.
  The counter is unsigned in the source (\<open>--exclusive_cnt\<close> wraps around).
\<close>

record Waiting =
  exclusive_cnt :: "32 word"
  oldest :: txn_id_t
  queue :: "Request list"

text \<open>\<open>Waiting\<close> of the second revision, which keeps no counter.\<close>

record Waiting2 =
  oldest2 :: txn_id_t
  queue2 :: "Request list"

datatype call_result = Returns bool | Blocks | AssertionFailure | UndefinedFront

type_synonym lock_table = "RID \<rightharpoonup> Waiting"

type_synonym lock_table2 = "RID \<rightharpoonup> Waiting2"

text \<open>
  The wait predicate of \<open>LockShared\<close>: scan from the front; a request of another
  transaction that is not shared or not granted makes it false; the first request of
  the caller makes it true and is remembered as \<open>cur\<close> (here: its position).
\<close>

fun shared_wait_pred :: "txn_id_t \<Rightarrow> Request list \<Rightarrow> nat \<Rightarrow> nat option" where
  "shared_wait_pred t [] i = None"
| "shared_wait_pred t (r # rs) i =
     (if r_txn_id r \<noteq> t then
        (if mode r \<noteq> SHARED \<or> \<not> granted r then None else shared_wait_pred t rs (Suc i))
      else Some i)"

definition grant_shared_v1 ::
  "lock_table \<Rightarrow> Transaction \<Rightarrow> RID \<Rightarrow> Waiting \<Rightarrow> call_result \<times> Transaction \<times> lock_table" where
  "grant_shared_v1 tbl txn rid w =
     (case shared_wait_pred (txn_id txn) (queue w) 0 of
        None \<Rightarrow> (Blocks, txn, tbl(rid \<mapsto> w))
      | Some i \<Rightarrow>
          (Returns True,
           txn\<lparr>shared_lock_set := insert rid (shared_lock_set txn)\<rparr>,
           tbl(rid \<mapsto> w\<lparr>queue := (queue w)[i := (queue w ! i)\<lparr>granted := True\<rparr>]\<rparr>)))"

definition LockShared_v1 ::
  "lock_table \<Rightarrow> Transaction \<Rightarrow> RID \<Rightarrow> call_result \<times> Transaction \<times> lock_table" where
  "LockShared_v1 tbl txn rid =
     (if state txn = ABORTED then (Returns False, txn, tbl)
      else if state txn \<noteq> GROWING then (AssertionFailure, txn, tbl)
      else
        let req = \<lparr>r_txn_id = txn_id txn, mode = SHARED, granted = False\<rparr> in
        case tbl rid of
          None \<Rightarrow>
            grant_shared_v1 tbl txn rid
              \<lparr>exclusive_cnt = 0, oldest = txn_id txn, queue = [req]\<rparr>
        | Some w \<Rightarrow>
            if exclusive_cnt w \<noteq> 0 \<and> txn_id txn > oldest w
            then (Returns False, txn\<lparr>state := ABORTED\<rparr>, tbl)
            else
              let w1 = (if oldest w > txn_id txn then w\<lparr>oldest := txn_id txn\<rparr> else w)
              in grant_shared_v1 tbl txn rid (w1\<lparr>queue := queue w1 @ [req]\<rparr>))"

definition grant_shared_v2 ::
  "lock_table2 \<Rightarrow> Transaction \<Rightarrow> RID \<Rightarrow> Waiting2 \<Rightarrow> call_result \<times> Transaction \<times> lock_table2" where
  "grant_shared_v2 tbl txn rid w =
     (case shared_wait_pred (txn_id txn) (queue2 w) 0 of
        None \<Rightarrow> (Blocks, txn, tbl(rid \<mapsto> w))
      | Some i \<Rightarrow>
          (Returns True,
           txn\<lparr>shared_lock_set := insert rid (shared_lock_set txn)\<rparr>,
           tbl(rid \<mapsto> w\<lparr>queue2 := (queue2 w)[i := (queue2 w ! i)\<lparr>granted := True\<rparr>]\<rparr>)))"

definition LockShared_v2 ::
  "lock_table2 \<Rightarrow> Transaction \<Rightarrow> RID \<Rightarrow> call_result \<times> Transaction \<times> lock_table2" where
  "LockShared_v2 tbl txn rid =
     (if state txn = ABORTED then (Returns False, txn, tbl)
      else if state txn \<noteq> GROWING then (AssertionFailure, txn, tbl)
      else
        let req = \<lparr>r_txn_id = txn_id txn, mode = SHARED, granted = False\<rparr> in
        case tbl rid of
          None \<Rightarrow> grant_shared_v2 tbl txn rid \<lparr>oldest2 = txn_id txn, queue2 = [req]\<rparr>
        | Some w \<Rightarrow>
            if txn_id txn > oldest2 w
            then (Returns False, txn\<lparr>state := ABORTED\<rparr>, tbl)
            else grant_shared_v2 tbl txn rid
                   (w\<lparr>oldest2 := txn_id txn, queue2 := queue2 w @ [req]\<rparr>))"

text \<open>
  \<open>LockExclusive\<close>: the wait predicate is that the caller's request is at the front.
  In the first revision the fresh \<open>Waiting\<close> is built without setting the counter;
  its declaration (lock_manager.h) is not among the sources, the initial value is taken
  as 0.
\<close>

definition grant_exclusive_v1 ::
  "lock_table \<Rightarrow> Transaction \<Rightarrow> RID \<Rightarrow> Waiting \<Rightarrow> call_result \<times> Transaction \<times> lock_table" where
  "grant_exclusive_v1 tbl txn rid w =
     (case queue w of
        [] \<Rightarrow> (UndefinedFront, txn, tbl(rid \<mapsto> w))
      | r # rs \<Rightarrow>
          if r_txn_id r = txn_id txn
          then (Returns True,
                txn\<lparr>exclusive_lock_set := insert rid (exclusive_lock_set txn)\<rparr>,
                tbl(rid \<mapsto> w\<lparr>queue := r\<lparr>granted := True\<rparr> # rs\<rparr>))
          else (Blocks, txn, tbl(rid \<mapsto> w)))"

definition LockExclusive_v1 ::
  "lock_table \<Rightarrow> Transaction \<Rightarrow> RID \<Rightarrow> call_result \<times> Transaction \<times> lock_table" where
  "LockExclusive_v1 tbl txn rid =
     (if state txn = ABORTED then (Returns False, txn, tbl)
      else if state txn \<noteq> GROWING then (AssertionFailure, txn, tbl)
      else
        let req = \<lparr>r_txn_id = txn_id txn, mode = EXCLUSIVE, granted = False\<rparr> in
        case tbl rid of
          None \<Rightarrow>
            grant_exclusive_v1 tbl txn rid
              \<lparr>exclusive_cnt = 0 + 1, oldest = txn_id txn, queue = [req]\<rparr>
        | Some w \<Rightarrow>
            if txn_id txn > oldest w
            then (Returns False, txn\<lparr>state := ABORTED\<rparr>, tbl)
            else grant_exclusive_v1 tbl txn rid
                   (w\<lparr>oldest := txn_id txn, queue := queue w @ [req],
                      exclusive_cnt := exclusive_cnt w + 1\<rparr>))"

definition grant_exclusive_v2 ::
  "lock_table2 \<Rightarrow> Transaction \<Rightarrow> RID \<Rightarrow> Waiting2 \<Rightarrow> call_result \<times> Transaction \<times> lock_table2" where
  "grant_exclusive_v2 tbl txn rid w =
     (case queue2 w of
        [] \<Rightarrow> (UndefinedFront, txn, tbl(rid \<mapsto> w))
      | r # rs \<Rightarrow>
          if r_txn_id r = txn_id txn
          then (Returns True,
                txn\<lparr>exclusive_lock_set := insert rid (exclusive_lock_set txn)\<rparr>,
                tbl(rid \<mapsto> w\<lparr>queue2 := r\<lparr>granted := True\<rparr> # rs\<rparr>))
          else (Blocks, txn, tbl(rid \<mapsto> w)))"

definition LockExclusive_v2 ::
  "lock_table2 \<Rightarrow> Transaction \<Rightarrow> RID \<Rightarrow> call_result \<times> Transaction \<times> lock_table2" where
  "LockExclusive_v2 tbl txn rid =
     (if state txn = ABORTED then (Returns False, txn, tbl)
      else if state txn \<noteq> GROWING then (AssertionFailure, txn, tbl)
      else
        let req = \<lparr>r_txn_id = txn_id txn, mode = EXCLUSIVE, granted = False\<rparr> in
        case tbl rid of
          None \<Rightarrow> grant_exclusive_v2 tbl txn rid \<lparr>oldest2 = txn_id txn, queue2 = [req]\<rparr>
        | Some w \<Rightarrow>
            if txn_id txn > oldest2 w
            then (Returns False, txn\<lparr>state := ABORTED\<rparr>, tbl)
            else grant_exclusive_v2 tbl txn rid
                   (w\<lparr>oldest2 := txn_id txn, queue2 := queue2 w @ [req]\<rparr>))"

text \<open>
  \<open>LockUpgrade\<close> of the first revision (the second is the same on \<open>Waiting2\<close>): it
  changes the mode of the front request and leaves \<open>exclusive_cnt\<close> as it is.
  \<open>lock_table_[rid]\<close> on a missing key creates an empty entry.
\<close>

definition LockUpgrade_v1 ::
  "lock_table \<Rightarrow> Transaction \<Rightarrow> RID \<Rightarrow> call_result \<times> Transaction \<times> lock_table" where
  "LockUpgrade_v1 tbl txn rid =
     (if state txn = ABORTED then (Returns False, txn, tbl)
      else if state txn \<noteq> GROWING then (AssertionFailure, txn, tbl)
      else
        case tbl rid of
          None \<Rightarrow>
            (UndefinedFront, txn, tbl(rid \<mapsto> \<lparr>exclusive_cnt = 0, oldest = 0, queue = []\<rparr>))
        | Some w \<Rightarrow>
            (case queue w of
               [] \<Rightarrow> (UndefinedFront, txn, tbl)
             | r # rs \<Rightarrow>
                 if r_txn_id r \<noteq> txn_id txn then (Blocks, txn, tbl)
                 else if \<not> (mode r = SHARED \<and> granted r) then (AssertionFailure, txn, tbl)
                 else (Returns True,
                       txn\<lparr>shared_lock_set := shared_lock_set txn - {rid},
                           exclusive_lock_set := insert rid (exclusive_lock_set txn)\<rparr>,
                       tbl(rid \<mapsto> w\<lparr>queue := r\<lparr>mode := EXCLUSIVE\<rparr> # rs\<rparr>))))"

text \<open>
  \<open>Unlock\<close>. The loop erases the first request of the caller, if there is one.
  \<open>find_request\<close> gives its position.
\<close>

fun find_request :: "txn_id_t \<Rightarrow> Request list \<Rightarrow> nat \<Rightarrow> nat option" where
  "find_request t [] i = None"
| "find_request t (r # rs) i = (if r_txn_id r = t then Some i else find_request t rs (Suc i))"

definition erase_at :: "nat \<Rightarrow> 'a list \<Rightarrow> 'a list" where
  "erase_at i xs = take i xs @ drop (Suc i) xs"

definition Unlock_v1 ::
  "bool \<Rightarrow> lock_table \<Rightarrow> Transaction \<Rightarrow> RID \<Rightarrow> call_result \<times> Transaction \<times> lock_table" where
  "Unlock_v1 strict_2PL tbl txn rid =
     (if strict_2PL \<and> (state txn \<noteq> COMMITTED \<or> state txn \<noteq> ABORTED)
      then (Returns False, txn\<lparr>state := ABORTED\<rparr>, tbl)
      else
        let txn1 = (if \<not> strict_2PL \<and> state txn = GROWING
                    then txn\<lparr>state := SHRINKING\<rparr> else txn) in
        case tbl rid of
          None \<Rightarrow> (AssertionFailure, txn1, tbl)
        | Some w \<Rightarrow>
            (case find_request (txn_id txn1) (queue w) 0 of
               None \<Rightarrow> (Returns True, txn1, tbl)
             | Some i \<Rightarrow>
                 let exclusive = (mode (queue w ! i) = EXCLUSIVE);
                     w1 = (if exclusive then w\<lparr>exclusive_cnt := exclusive_cnt w - 1\<rparr> else w)
                 in (Returns True, txn1, tbl(rid \<mapsto> w1\<lparr>queue := erase_at i (queue w1)\<rparr>))))"

definition Unlock_v2 ::
  "bool \<Rightarrow> lock_table2 \<Rightarrow> Transaction \<Rightarrow> RID \<Rightarrow> call_result \<times> Transaction \<times> lock_table2" where
  "Unlock_v2 strict_2PL tbl txn rid =
     (if strict_2PL \<and> (state txn \<noteq> COMMITTED \<or> state txn \<noteq> ABORTED)
      then (Returns False, txn\<lparr>state := ABORTED\<rparr>, tbl)
      else
        let txn1 = (if \<not> strict_2PL \<and> state txn = GROWING
                    then txn\<lparr>state := SHRINKING\<rparr> else txn) in
        case tbl rid of
          None \<Rightarrow> (AssertionFailure, txn1, tbl)
        | Some w \<Rightarrow>
            (case find_request (txn_id txn1) (queue2 w) 0 of
               None \<Rightarrow> (Returns True, txn1, tbl)
             | Some i \<Rightarrow>
                 let is_last = (Suc i = length (queue2 w));
                     q1 = erase_at i (queue2 w);
                     w1 = w\<lparr>queue2 := q1\<rparr>;
                     w2 = (if is_last \<and> q1 \<noteq> [] then w1\<lparr>oldest2 := r_txn_id (last q1)\<rparr> else w1)
                 in (Returns True, txn1, tbl(rid \<mapsto> w2))))"

section \<open>LRU replacer (src/project/src/buffer/lru_replacer.cpp)\<close>

text \<open>
  The replacer is a doubly linked list of heap nodes: \<open>next\<close> is an owning
  \<open>unique_ptr\<close>, \<open>pre\<close> a raw pointer, \<open>table_\<close> maps a value to its node. The
  claims depend on what the pointer code does, so the nodes live in an explicit heap
  (address to node). A node whose owner is reset or goes out of scope is deleted from
  the heap; following a null pointer or a pointer to a deleted node is an error value.
  The members \<open>head_\<close>, \<open>tail_\<close>, \<open>table_\<close>, \<open>size_\<close> are the fields
  \<open>lru_head\<close>, \<open>lru_tail\<close>, \<open>lru_table\<close>, \<open>lru_size\<close>.
\<close>

datatype lru_error = NullDereference | UseAfterFree | AssertFailed

type_synonym addr = nat

record 'a node =
  data :: 'a
  pre :: "addr option"
  "next" :: "addr option"

record 'a LRUReplacer =
  heap :: "addr \<rightharpoonup> 'a node"
  fresh :: addr
  lru_head :: addr
  lru_tail :: addr
  lru_table :: "'a \<rightharpoonup> addr"
  lru_size :: nat

text \<open>Sequencing of steps that can fail: the first error ends the call.\<close>

definition and_then :: "'e + 'a \<Rightarrow> ('a \<Rightarrow> 'e + 'b) \<Rightarrow> 'e + 'b" where
  "and_then m f = (case m of Inl e \<Rightarrow> Inl e | Inr x \<Rightarrow> f x)"

text \<open>The constructor: one dummy node, head and tail point to it. \<open>d\<close> is the dummy's data.\<close>

definition LRUReplacer_new :: "'a \<Rightarrow> 'a LRUReplacer" where
  "LRUReplacer_new d =
     \<lparr>heap = [0 \<mapsto> \<lparr>data = d, pre = None, next = None\<rparr>], fresh = 1,
      lru_head = 0, lru_tail = 0, lru_table = Map.empty, lru_size = 0\<rparr>"

definition load :: "(addr \<rightharpoonup> 'a node) \<Rightarrow> addr option \<Rightarrow> lru_error + (addr \<times> 'a node)" where
  "load h p =
     (case p of
        None \<Rightarrow> Inl NullDereference
      | Some a \<Rightarrow> (case h a of None \<Rightarrow> Inl UseAfterFree | Some n \<Rightarrow> Inr (a, n)))"

definition upd :: "(addr \<rightharpoonup> 'a node) \<Rightarrow> addr \<Rightarrow> ('a node \<Rightarrow> 'a node) \<Rightarrow> (addr \<rightharpoonup> 'a node)" where
  "upd h a f = (case h a of None \<Rightarrow> h | Some n \<Rightarrow> h(a \<mapsto> f n))"

text \<open>
  Deleting a node deletes the nodes it owns through \<open>next\<close>. The fuel bounds the walk
  (callers pass the number of addresses handed out so far).
\<close>

fun free_chain :: "nat \<Rightarrow> (addr \<rightharpoonup> 'a node) \<Rightarrow> addr option \<Rightarrow> (addr \<rightharpoonup> 'a node)" where
  "free_chain 0 h p = h"
| "free_chain (Suc k) h None = h"
| "free_chain (Suc k) h (Some a) =
     (case h a of None \<Rightarrow> h | Some n \<Rightarrow> free_chain k (h(a := None)) (next n))"

text \<open>
  The four statements that \<open>Insert\<close> (value present) and \<open>Erase\<close> share:
  \<^verbatim>\<open>node *pre = it->second->pre;
  std::unique_ptr<node> cur = std::move(pre->next);
  pre->next = std::move(cur->next);
  pre->next->pre = pre;\<close>
  The result is the new heap with the addresses of \<open>pre\<close> and \<open>cur\<close>.
\<close>

definition unlink ::
  "(addr \<rightharpoonup> 'a node) \<Rightarrow> addr \<Rightarrow> lru_error + ((addr \<rightharpoonup> 'a node) \<times> addr \<times> addr)" where
  "unlink h c =
     and_then (load h (Some c)) (\<lambda>(ca0, nc).
     and_then (load h (pre nc)) (\<lambda>(pa, np).
       let cur = next np;
           h1 = upd h pa (\<lambda>n. n\<lparr>next := None\<rparr>) in
       and_then (load h1 cur) (\<lambda>(ca, ncur).
         let h2 = upd h1 ca (\<lambda>n. n\<lparr>next := None\<rparr>);
             h3 = upd h2 pa (\<lambda>n. n\<lparr>next := next ncur\<rparr>) in
         and_then (load h3 (next ncur)) (\<lambda>(na, nn).
           Inr (upd h3 na (\<lambda>n. n\<lparr>pre := Some pa\<rparr>), pa, ca)))))"

text \<open>\<open>tail_->next = std::move(p)\<close>: what the tail owned before is deleted.\<close>

definition set_tail_next ::
  "'a LRUReplacer \<Rightarrow> (addr \<rightharpoonup> 'a node) \<Rightarrow> addr \<Rightarrow> lru_error + (addr \<rightharpoonup> 'a node)" where
  "set_tail_next r h a =
     and_then (load h (Some (lru_tail r))) (\<lambda>(ta, nt).
       Inr (upd (free_chain (fresh r) h (next nt)) ta (\<lambda>n. n\<lparr>next := Some a\<rparr>)))"

definition Insert_lru :: "'a LRUReplacer \<Rightarrow> 'a \<Rightarrow> lru_error + 'a LRUReplacer" where
  "Insert_lru r v =
     (case lru_table r v of
        None \<Rightarrow>
          let a = fresh r;
              h1 = (heap r)(a \<mapsto> \<lparr>data = v, pre = Some (lru_tail r), next = None\<rparr>) in
          and_then (set_tail_next (r\<lparr>fresh := Suc a\<rparr>) h1 a) (\<lambda>h2.
            Inr (r\<lparr>heap := h2, fresh := Suc a, lru_tail := a,
                   lru_table := (lru_table r)(v \<mapsto> a), lru_size := lru_size r + 1\<rparr>))
      | Some c \<Rightarrow>
          and_then (unlink (heap r) c) (\<lambda>(h1, pa, ca).
            let h2 = upd h1 ca (\<lambda>n. n\<lparr>pre := Some (lru_tail r)\<rparr>) in
            and_then (set_tail_next r h2 ca) (\<lambda>h3.
              Inr (r\<lparr>heap := h3, lru_tail := ca\<rparr>))))"

text \<open>\<open>--size_\<close> on a \<open>size_t\<close>: 0 wraps to \<open>2 ^ 64 - 1\<close>.\<close>

definition dec_size :: "nat \<Rightarrow> nat" where
  "dec_size n = (if n = 0 then 18446744073709551615 else n - 1)"

text \<open>
  \<open>Victim\<close>: the result \<open>None\<close> is the return value false (the out-parameter is left
  alone), \<open>Some v\<close> is true with \<open>value = v\<close>.
\<close>

definition Victim :: "'a LRUReplacer \<Rightarrow> lru_error + ('a option \<times> 'a LRUReplacer)" where
  "Victim r =
     (if lru_size r = 0 then
        (if lru_head r = lru_tail r then Inr (None, r) else Inl AssertFailed)
      else
        and_then (load (heap r) (Some (lru_head r))) (\<lambda>(ha, nh).
        and_then (load (heap r) (next nh)) (\<lambda>(fa, nf).
          let v = data nf;
              h1 = upd (heap r) fa (\<lambda>n. n\<lparr>next := None\<rparr>);
              h2 = free_chain (fresh r) h1 (Some fa);
              h3 = upd h2 ha (\<lambda>n. n\<lparr>next := next nf\<rparr>);
              s = dec_size (lru_size r)
          in Inr (Some v,
                  r\<lparr>heap := h3, lru_table := (lru_table r)(v := None), lru_size := s,
                    lru_tail := (if s = 0 then lru_head r else lru_tail r)\<rparr>))))"

definition Erase :: "'a LRUReplacer \<Rightarrow> 'a \<Rightarrow> lru_error + (bool \<times> 'a LRUReplacer)" where
  "Erase r v =
     (case lru_table r v of
        Some c \<Rightarrow>
          and_then (unlink (heap r) c) (\<lambda>(h1, pa, ca).
            let s = dec_size (lru_size r);
                h2 = free_chain (fresh r) h1 (Some ca)
            in Inr (True,
                    r\<lparr>heap := h2, lru_table := (lru_table r)(v := None), lru_size := s,
                      lru_tail := (if s = 0 then lru_head r else lru_tail r)\<rparr>))
      | None \<Rightarrow> Inr (False, r))"

definition Size :: "'a LRUReplacer \<Rightarrow> nat" where
  "Size r = lru_size r"

text \<open>Running calls one after the other; an error ends the run.\<close>

fun Insert_all :: "'a LRUReplacer \<Rightarrow> 'a list \<Rightarrow> lru_error + 'a LRUReplacer" where
  "Insert_all r [] = Inr r"
| "Insert_all r (v # vs) = and_then (Insert_lru r v) (\<lambda>r1. Insert_all r1 vs)"

text \<open>The values from the LRU end to the MRU end, read along \<open>next\<close> from the dummy.\<close>

fun walk :: "nat \<Rightarrow> (addr \<rightharpoonup> 'a node) \<Rightarrow> addr option \<Rightarrow> 'a list" where
  "walk 0 h p = []"
| "walk (Suc k) h None = []"
| "walk (Suc k) h (Some a) =
     (case h a of None \<Rightarrow> [] | Some n \<Rightarrow> data n # walk k h (next n))"

definition contents :: "'a LRUReplacer \<Rightarrow> 'a list" where
  "contents r =
     (case heap r (lru_head r) of None \<Rightarrow> [] | Some n \<Rightarrow> walk (fresh r) (heap r) (next n))"

section \<open>Extendible hash table (the extendible_hash.cpp part of index_iterator.h)\<close>

text \<open>
  A bucket has an id, a local depth, its items (a \<open>std::map\<close>: kept in key order, one
  entry per key) and the owning pointer \<open>next\<close> to an overflow bucket. The directory
  \<open>buckets_\<close> holds shared pointers, several slots can name one bucket, and a bucket is
  changed in place: so the primary buckets live in a store (a list, the address is the
  position) and a directory slot is an address or null. An overflow bucket is owned by
  the bucket before it and is part of that bucket's value.
  \<open>HashKey\<close> is \<open>std::hash<K>\<close>, which the library defines: it is the parameter
  \<open>hash\<close>, with values below \<open>2 ^ 64\<close>.
\<close>

datatype ('k, 'v) Bucket =
  Bucket (b_id: nat) (b_depth: nat) (b_items: "('k \<times> 'v) list") (b_next: "('k, 'v) Bucket option")

record ('k, 'v) ExtendibleHash =
  bucket_size :: nat
  bucket_count :: nat
  depth :: nat
  buckets :: "nat option list"
  store :: "('k, 'v) Bucket list"

datatype hash_error = UndefinedShift | OutOfBounds

definition ExtendibleHash_new :: "nat \<Rightarrow> ('k, 'v) ExtendibleHash" where
  "ExtendibleHash_new sz =
     \<lparr>bucket_size = sz, bucket_count = 1, depth = 0, buckets = [Some 0],
      store = [Bucket 0 0 [] None]\<rparr>"

definition GetGlobalDepth :: "('k, 'v) ExtendibleHash \<Rightarrow> int" where
  "GetGlobalDepth t = int (depth t)"

text \<open>\<open>GetLocalDepth\<close>: the assert on the index is \<open>Inl OutOfBounds\<close>, a null slot gives -1.\<close>

definition GetLocalDepth :: "('k, 'v) ExtendibleHash \<Rightarrow> nat \<Rightarrow> hash_error + int" where
  "GetLocalDepth t bucket_id =
     (if bucket_id < length (buckets t) then
        (case buckets t ! bucket_id of
           Some a \<Rightarrow> (if a < length (store t) then Inr (int (b_depth (store t ! a)))
                      else Inl OutOfBounds)
         | None \<Rightarrow> Inr (- 1))
      else Inl OutOfBounds)"

definition GetNumBuckets :: "('k, 'v) ExtendibleHash \<Rightarrow> int" where
  "GetNumBuckets t = int (bucket_count t)"

subsection \<open>The items of a bucket\<close>

fun items_insert :: "'k::linorder \<Rightarrow> 'v \<Rightarrow> ('k \<times> 'v) list \<Rightarrow> ('k \<times> 'v) list" where
  "items_insert k v [] = [(k, v)]"
| "items_insert k v ((k', v') # xs) =
     (if k < k' then (k, v) # (k', v') # xs
      else if k = k' then (k', v') # xs
      else (k', v') # items_insert k v xs)"

definition items_assign :: "'k \<Rightarrow> 'v \<Rightarrow> ('k \<times> 'v) list \<Rightarrow> ('k \<times> 'v) list" where
  "items_assign k v xs = map (\<lambda>(k', v'). if k' = k then (k', v) else (k', v')) xs"

definition items_erase :: "'k \<Rightarrow> ('k \<times> 'v) list \<Rightarrow> nat \<times> ('k \<times> 'v) list" where
  "items_erase k xs =
     ((if map_of xs k = None then 0 else 1), filter (\<lambda>(k', v'). k' \<noteq> k) xs)"

subsection \<open>Shifts of the \<open>int\<close> constant 1\<close>

text \<open>
  \<open>1 << n\<close> is a shift of a 32-bit \<open>int\<close>. Up to \<open>n = 30\<close> it is \<open>2 ^ n\<close>. \<open>1 << 31\<close>
  is the most negative \<open>int\<close>, which as a \<open>size_t\<close> operand of \<open>&\<close> has the bits 31 to
  63 set; subtracting 1 from it overflows. A shift by 32 or more is undefined.
\<close>

definition bit_mask :: "nat \<Rightarrow> hash_error + nat" where
  "bit_mask n =
     (if n \<le> 30 then Inr (2 ^ n)
      else if n = 31 then Inr (2 ^ 64 - 2 ^ 31)
      else Inl UndefinedShift)"

definition low_mask :: "nat \<Rightarrow> hash_error + nat" where
  "low_mask n = (if n \<le> 30 then Inr (2 ^ n - 1) else Inl UndefinedShift)"

definition bucketIndex :: "('k \<Rightarrow> nat) \<Rightarrow> ('k, 'v) ExtendibleHash \<Rightarrow> 'k \<Rightarrow> hash_error + nat" where
  "bucketIndex hash t key = and_then (low_mask (depth t)) (\<lambda>m. Inr (hash key AND m))"

subsection \<open>Find and Remove\<close>

fun chain_find :: "'k \<Rightarrow> ('k, 'v) Bucket \<Rightarrow> 'v option" where
  "chain_find key (Bucket i d its nx) =
     (case nx of
        None \<Rightarrow> None
      | Some n \<Rightarrow> (case map_of (b_items n) key of Some v \<Rightarrow> Some v | None \<Rightarrow> chain_find key n))"

text \<open>\<open>Find\<close>: \<open>Some v\<close> is the return value true with \<open>value = v\<close>, \<open>None\<close> is false.\<close>

definition Find ::
  "('k \<Rightarrow> nat) \<Rightarrow> ('k, 'v) ExtendibleHash \<Rightarrow> 'k \<Rightarrow> hash_error + 'v option" where
  "Find hash t key =
     and_then (bucketIndex hash t key) (\<lambda>index.
       if index < length (buckets t) then
         (case buckets t ! index of
            None \<Rightarrow> Inr None
          | Some a \<Rightarrow>
              if a < length (store t) then
                (let bucket = store t ! a in
                 case map_of (b_items bucket) key of
                   Some v \<Rightarrow> Inr (Some v)
                 | None \<Rightarrow> Inr (chain_find key bucket))
              else Inl OutOfBounds)
       else Inl OutOfBounds)"

text \<open>Erasing the key from every overflow bucket behind a bucket, with the number erased.\<close>

fun chain_erase :: "'k \<Rightarrow> ('k, 'v) Bucket option \<Rightarrow> nat \<times> ('k, 'v) Bucket option" where
  "chain_erase key None = (0, None)"
| "chain_erase key (Some (Bucket i d its nx)) =
     (let (c, its1) = items_erase key its;
          (c1, nx1) = chain_erase key nx
      in (c + c1, Some (Bucket i d its1 nx1)))"

definition Remove_hash ::
  "('k \<Rightarrow> nat) \<Rightarrow> ('k, 'v) ExtendibleHash \<Rightarrow> 'k \<Rightarrow> hash_error + (bool \<times> ('k, 'v) ExtendibleHash)" where
  "Remove_hash hash t key =
     and_then (bucketIndex hash t key) (\<lambda>index.
       if index < length (buckets t) then
         (case buckets t ! index of
            None \<Rightarrow> Inr (False, t)
          | Some a \<Rightarrow>
              if a < length (store t) then
                (let bucket = store t ! a;
                     (c, its1) = items_erase key (b_items bucket);
                     (c1, nx1) = chain_erase key (b_next bucket);
                     bucket1 = Bucket (b_id bucket) (b_depth bucket) its1 nx1
                 in Inr (c + c1 \<noteq> 0, t\<lparr>store := (store t)[a := bucket1]\<rparr>))
              else Inl OutOfBounds)
       else Inl OutOfBounds)"

subsection \<open>split\<close>

definition sizeof_size_t :: nat where
  "sizeof_size_t = 8"

text \<open>
  The \<open>while (res->items.empty())\<close> loop of \<open>split\<close>, one call per round, on the
  values of \<open>b\<close> and \<open>res\<close>. The items whose hash has bit \<open>b->depth - 1\<close> set move to
  \<open>res\<close>, in key order, and each move sets \<open>res->id\<close>; if nothing stays in \<open>b\<close> the
  items are swapped back and \<open>b\<close> takes the id of \<open>res\<close>. The round at depth
  \<open>sizeof(size_t)\<close> ends the loop by \<open>break\<close>.
\<close>

function split_loop ::
  "('k::linorder \<Rightarrow> nat) \<Rightarrow> ('k, 'v) Bucket \<Rightarrow> ('k, 'v) Bucket \<Rightarrow>
     hash_error + (('k, 'v) Bucket \<times> ('k, 'v) Bucket)" where
  "split_loop hash b res =
     (let d = b_depth b + 1; rd = b_depth res + 1 in
      case bit_mask (d - 1) of
        Inl e \<Rightarrow> Inl e
      | Inr m \<Rightarrow>
          let moved = filter (\<lambda>(k, v). hash k AND m \<noteq> 0) (b_items b);
              kept = filter (\<lambda>(k, v). \<not> hash k AND m \<noteq> 0) (b_items b)
          in
          (case (if moved = [] then Inr (b_id res)
                 else (case low_mask d of
                         Inl e \<Rightarrow> Inl e
                       | Inr lm \<Rightarrow> Inr (hash (fst (last moved)) AND lm))) of
             Inl e \<Rightarrow> Inl e
           | Inr rid \<Rightarrow>
               let ritems = fold (\<lambda>(k, v). items_insert k v) moved (b_items res);
                   b1 = (if kept = [] then Bucket rid d ritems (b_next b)
                         else Bucket (b_id b) d kept (b_next b));
                   res1 = (if kept = [] then Bucket rid rd [] (b_next res)
                           else Bucket rid rd ritems (b_next res))
               in if d = sizeof_size_t then Inr (b1, res1)
                  else if b_items res1 = [] then split_loop hash b1 res1
                  else Inr (b1, res1)))"
  by pat_completeness auto
termination
  by (relation "measure (\<lambda>(hash, b, res). 33 - b_depth b)")
     (auto simp: bit_mask_def split: if_splits)

fun chain_append :: "('k, 'v) Bucket \<Rightarrow> ('k, 'v) Bucket \<Rightarrow> ('k, 'v) Bucket" where
  "chain_append (Bucket i d its nx) res =
     (case nx of
        None \<Rightarrow> Bucket i d its (Some res)
      | Some n \<Rightarrow> Bucket i d its (Some (chain_append n res)))"

text \<open>
  \<open>split\<close>: the result is the new value of \<open>b\<close> and the returned pointer (\<open>None\<close> for
  \<open>nullptr\<close>, when \<open>res\<close> was chained behind the last overflow bucket of \<open>b\<close>). The
  \<open>++bucket_count_\<close> of \<open>split\<close> is done by the caller below.
\<close>

definition split_bucket ::
  "('k::linorder \<Rightarrow> nat) \<Rightarrow> ('k, 'v) Bucket \<Rightarrow>
     hash_error + (('k, 'v) Bucket \<times> ('k, 'v) Bucket option)" where
  "split_bucket hash b =
     and_then (split_loop hash b (Bucket 0 (b_depth b) [] None)) (\<lambda>(b1, res).
       if b_depth b1 = sizeof_size_t then Inr (chain_append b1 res, None)
       else Inr (b1, Some res))"

subsection \<open>Insert\<close>

definition dir_set :: "nat option list \<Rightarrow> nat \<Rightarrow> nat option \<Rightarrow> hash_error + nat option list" where
  "dir_set dir i p = (if i < length dir then Inr (dir[i := p]) else Inl OutOfBounds)"

text \<open>
  The directory after \<open>resize\<close> and the copy loop: the slot \<open>j = i + m * size\<close> of the
  new part takes \<open>buckets_[i]\<close> unless that is the bucket being split, in which case
  it stays null.
\<close>

definition grow_directory :: "nat option list \<Rightarrow> nat \<Rightarrow> nat \<Rightarrow> nat option list" where
  "grow_directory dir a factor =
     dir @ concat (replicate (factor - 1) (map (\<lambda>p. if p \<noteq> Some a then p else None) dir))"

text \<open>
  The part of \<open>Insert\<close> after a split that returned a bucket: \<open>a\<close> is the address of
  \<open>bucket\<close>, \<open>na\<close> that of \<open>new_bucket\<close>.
\<close>

definition rearrange ::
  "('k, 'v) ExtendibleHash \<Rightarrow> nat \<Rightarrow> nat \<Rightarrow> nat \<Rightarrow> hash_error + ('k, 'v) ExtendibleHash" where
  "rearrange t bucket_id a na =
     (let bucket = store t ! a; new_bucket = store t ! na in
      and_then
        (if b_depth bucket > depth t then
           and_then (if b_depth bucket - depth t \<le> 30 then Inr (2 ^ (b_depth bucket - depth t))
                     else Inl UndefinedShift) (\<lambda>factor.
             let dir1 = grow_directory (buckets t) a factor in
             and_then
               (if b_id bucket \<noteq> bucket_id then
                  and_then (dir_set dir1 bucket_id None) (\<lambda>dir2.
                    dir_set dir2 (b_id bucket) (Some a))
                else Inr dir1) (\<lambda>dir3.
               Inr (t\<lparr>depth := b_depth bucket, buckets := dir3\<rparr>)))
         else Inr t) (\<lambda>t1.
        and_then (dir_set (buckets t1) (b_id new_bucket) (Some na)) (\<lambda>dir4.
          Inr (t1\<lparr>buckets := dir4\<rparr>))))"

definition Insert_hash ::
  "('k::linorder \<Rightarrow> nat) \<Rightarrow> ('k, 'v) ExtendibleHash \<Rightarrow> 'k \<Rightarrow> 'v \<Rightarrow>
     hash_error + ('k, 'v) ExtendibleHash" where
  "Insert_hash hash t key val =
     and_then (bucketIndex hash t key) (\<lambda>bucket_id.
       if bucket_id < length (buckets t) then
         (let (a, t1) =
                (case buckets t ! bucket_id of
                   None \<Rightarrow>
                     (length (store t),
                      t\<lparr>buckets := (buckets t)[bucket_id := Some (length (store t))],
                        store := store t @ [Bucket bucket_id (depth t) [] None],
                        bucket_count := bucket_count t + 1\<rparr>)
                 | Some a \<Rightarrow> (a, t))
          in
          if a < length (store t1) then
            (let bucket = store t1 ! a in
             if map_of (b_items bucket) key \<noteq> None then
               Inr (t1\<lparr>store := (store t1)
                      [a := Bucket (b_id bucket) (b_depth bucket)
                              (items_assign key val (b_items bucket)) (b_next bucket)]\<rparr>)
             else
               let bucket1 = Bucket (b_id bucket) (b_depth bucket)
                               (items_insert key val (b_items bucket)) (b_next bucket)
               in
               if length (b_items bucket1) > bucket_size t1 then
                 and_then (split_bucket hash bucket1) (\<lambda>(bucket2, new_bucket).
                   let t2 = t1\<lparr>store := (store t1)[a := bucket2],
                               bucket_count := bucket_count t1 + 1\<rparr> in
                   case new_bucket of
                     None \<Rightarrow> Inr t2
                   | Some nb \<Rightarrow>
                       rearrange (t2\<lparr>store := store t2 @ [nb]\<rparr>) bucket_id a
                         (length (store t2)))
               else Inr (t1\<lparr>store := (store t1)[a := bucket1]\<rparr>))
          else Inl OutOfBounds)
       else Inl OutOfBounds)"

text \<open>Running operations one after the other; an error ends the run.\<close>

datatype ('k, 'v) hash_op = Ins 'k 'v | Rem 'k

fun run_ops ::
  "('k::linorder \<Rightarrow> nat) \<Rightarrow> ('k, 'v) ExtendibleHash \<Rightarrow> ('k, 'v) hash_op list \<Rightarrow>
     hash_error + ('k, 'v) ExtendibleHash" where
  "run_ops hash t [] = Inr t"
| "run_ops hash t (Ins k v # ops) = and_then (Insert_hash hash t k v) (\<lambda>t1. run_ops hash t1 ops)"
| "run_ops hash t (Rem k # ops) =
     and_then (Remove_hash hash t k) (\<lambda>(b, t1). run_ops hash t1 ops)"

section \<open>Pages and the buffer pool\<close>

text \<open>
  The B+ tree and its iterator work on pages that they fetch from the buffer pool
  manager. The page classes (b_plus_tree_page, b_plus_tree_leaf_page,
  b_plus_tree_internal_page, header_page) and the buffer pool manager are used by the
  sources but are not among them; they are modelled from the specification.
\<close>

type_synonym page_id_t = int

definition INVALID_PAGE_ID :: page_id_t where
  "INVALID_PAGE_ID = - 1"

definition HEADER_PAGE_ID :: page_id_t where
  "HEADER_PAGE_ID = 0"

datatype IndexPageType = INVALID_INDEX_PAGE | LEAF_PAGE | INTERNAL_PAGE

datatype ('k, 'v) entries = LeafArray "('k \<times> 'v) list" | InternalArray "('k \<times> page_id_t) list"

text \<open>
  Modelled from the spec: the page layout (section 3, Page): the header fields
  page type, max size, parent page id and page id, the sibling pointer of a leaf, and
  the entry array. The size field is the length of the array.
\<close>

record ('k, 'v) BPlusTreePage =
  page_type :: IndexPageType
  max_size :: int
  parent_page_id :: page_id_t
  page_id :: page_id_t
  next_page_id :: page_id_t
  array :: "('k, 'v) entries"

datatype ('k, 'v) Page =
  TreePage "('k, 'v) BPlusTreePage"
| HeaderPage "(string \<times> page_id_t) list"

text \<open>A page whose bytes are all zero, as \<open>new_page\<close> hands it out, seen as a tree page.\<close>

definition zero_page :: "('k, 'v) BPlusTreePage" where
  "zero_page =
     \<lparr>page_type = INVALID_INDEX_PAGE, max_size = 0, parent_page_id = 0, page_id = 0,
      next_page_id = 0, array = LeafArray []\<rparr>"

text \<open>
  The tree reads a fetched frame through \<open>reinterpret_cast\<close>. Reading a page as what it
  is gives its content, and an empty array is empty under every view. What the bytes of
  a non-empty array of one kind give when read as the other kind, or the bytes of a
  header page read as a tree page, depends on the memory layout, which is not modelled:
  these readings are the parameters collected in \<open>reinterpret\<close>, together with
  \<open>zero_key\<close>, the key whose bytes are all zero.
\<close>

record ('k, 'v) reinterpret =
  internal_as_leaf :: "('k \<times> page_id_t) list \<Rightarrow> ('k \<times> 'v) list"
  leaf_as_internal :: "('k \<times> 'v) list \<Rightarrow> ('k \<times> page_id_t) list"
  header_as_tree :: "(string \<times> page_id_t) list \<Rightarrow> ('k, 'v) BPlusTreePage"
  tree_as_header :: "('k, 'v) BPlusTreePage \<Rightarrow> (string \<times> page_id_t) list"
  zero_key :: 'k

definition as_tree :: "('k, 'v) reinterpret \<Rightarrow> ('k, 'v) Page \<Rightarrow> ('k, 'v) BPlusTreePage" where
  "as_tree R pg =
     (case pg of
        TreePage t \<Rightarrow> t
      | HeaderPage recs \<Rightarrow> (if recs = [] then zero_page else header_as_tree R recs))"

definition as_header :: "('k, 'v) reinterpret \<Rightarrow> ('k, 'v) Page \<Rightarrow> (string \<times> page_id_t) list" where
  "as_header R pg =
     (case pg of
        HeaderPage recs \<Rightarrow> recs
      | TreePage t \<Rightarrow> (if t = zero_page then [] else tree_as_header R t))"

definition leaf_array :: "('k, 'v) reinterpret \<Rightarrow> ('k, 'v) BPlusTreePage \<Rightarrow> ('k \<times> 'v) list" where
  "leaf_array R t =
     (case array t of
        LeafArray xs \<Rightarrow> xs
      | InternalArray ys \<Rightarrow> (if ys = [] then [] else internal_as_leaf R ys))"

definition internal_array ::
  "('k, 'v) reinterpret \<Rightarrow> ('k, 'v) BPlusTreePage \<Rightarrow> ('k \<times> page_id_t) list" where
  "internal_array R t =
     (case array t of
        InternalArray ys \<Rightarrow> ys
      | LeafArray xs \<Rightarrow> (if xs = [] then [] else leaf_as_internal R xs))"

text \<open>
  What a call on the index can end with instead of a result: the two exceptions the
  sources throw, a failed \<open>assert\<close>, following a null pointer, reading an array slot
  that holds no entry, and calling a page operation outside its precondition.
\<close>

datatype index_error =
  out_of_range | bad_alloc | assertion_failed | null_dereference | stale_read
| precondition_violated

subsection \<open>Buffer pool manager\<close>

text \<open>
  Modelled from the spec: the buffer pool manager (section 4.3), which is not among the
  sources. \<open>pages\<close> is the content of every page, in a frame or on disk (a page that
  was never written reads as zeros); \<open>pin_table\<close> lists the pages with a positive pin
  count. A frame is free, in the replacer or pinned, so a page that is not pinned can
  be brought in or kept exactly when fewer than \<open>pool_size\<close> pages are pinned.
\<close>

record ('k, 'v) BufferPoolManager =
  pool_size :: nat
  pages :: "page_id_t \<Rightarrow> ('k, 'v) Page"
  pin_table :: "(page_id_t \<times> nat) list"
  is_dirty :: "page_id_t \<Rightarrow> bool"
  disk_next_page_id :: page_id_t

definition pin_count :: "('k, 'v) BufferPoolManager \<Rightarrow> page_id_t \<Rightarrow> nat" where
  "pin_count b p = (case map_of (pin_table b) p of None \<Rightarrow> 0 | Some n \<Rightarrow> n)"

definition set_pin :: "(page_id_t \<times> nat) list \<Rightarrow> page_id_t \<Rightarrow> nat \<Rightarrow> (page_id_t \<times> nat) list" where
  "set_pin tbl p n =
     (let rest = filter (\<lambda>(q, c). q \<noteq> p) tbl in if n = 0 then rest else (p, n) # rest)"

text \<open>\<open>FetchPage\<close>: the result False is the null pointer.\<close>

definition FetchPage ::
  "('k, 'v) BufferPoolManager \<Rightarrow> page_id_t \<Rightarrow> bool \<times> ('k, 'v) BufferPoolManager" where
  "FetchPage b p =
     (if pin_count b p > 0 then
        (True, b\<lparr>pin_table := set_pin (pin_table b) p (pin_count b p + 1)\<rparr>)
      else if length (pin_table b) < pool_size b then
        (True, b\<lparr>pin_table := set_pin (pin_table b) p 1\<rparr>)
      else (False, b))"

definition UnpinPage ::
  "('k, 'v) BufferPoolManager \<Rightarrow> page_id_t \<Rightarrow> bool \<Rightarrow> bool \<times> ('k, 'v) BufferPoolManager" where
  "UnpinPage b p dirty =
     (if pin_count b p = 0 then (False, b)
      else (True, b\<lparr>pin_table := set_pin (pin_table b) p (pin_count b p - 1),
                     is_dirty := (is_dirty b)(p := is_dirty b p \<or> dirty)\<rparr>))"

text \<open>\<open>NewPage\<close>: the result is the new page id, or \<open>None\<close> for the null pointer.\<close>

definition NewPage ::
  "('k, 'v) BufferPoolManager \<Rightarrow> page_id_t option \<times> ('k, 'v) BufferPoolManager" where
  "NewPage b =
     (if length (pin_table b) < pool_size b then
        (let p = disk_next_page_id b in
         (Some p,
          b\<lparr>pages := (pages b)(p := TreePage zero_page),
            pin_table := set_pin (pin_table b) p 1,
            is_dirty := (is_dirty b)(p := True),
            disk_next_page_id := p + 1\<rparr>))
      else (None, b))"

text \<open>Reading and writing the tree page in the frame that a pointer names.\<close>

definition page_at ::
  "('k, 'v) reinterpret \<Rightarrow> ('k, 'v) BufferPoolManager \<Rightarrow> page_id_t \<Rightarrow> ('k, 'v) BPlusTreePage" where
  "page_at R b p = as_tree R (pages b p)"

definition write_page ::
  "('k, 'v) BufferPoolManager \<Rightarrow> page_id_t \<Rightarrow> ('k, 'v) BPlusTreePage \<Rightarrow> ('k, 'v) BufferPoolManager" where
  "write_page b p t = b\<lparr>pages := (pages b)(p := TreePage t)\<rparr>"

definition GetSize :: "('k, 'v) BPlusTreePage \<Rightarrow> int" where
  "GetSize t = (case array t of LeafArray xs \<Rightarrow> int (length xs) | InternalArray ys \<Rightarrow> int (length ys))"

definition IsLeafPage :: "('k, 'v) BPlusTreePage \<Rightarrow> bool" where
  "IsLeafPage t = (page_type t = LEAF_PAGE)"

definition IsRootPage :: "('k, 'v) BPlusTreePage \<Rightarrow> bool" where
  "IsRootPage t = (parent_page_id t = INVALID_PAGE_ID)"

section \<open>Index iterator (the index_iterator.cpp part of index_iterator.h)\<close>

text \<open>
  The iterator holds a pointer to a leaf frame (\<open>None\<close> is the null pointer) and an
  index; the buffer pool manager it points to is the state that is passed along.
\<close>

record IndexIterator =
  leaf_ptr :: "page_id_t option"
  index :: int


definition IndexIterator_new :: "page_id_t option \<Rightarrow> IndexIterator" where
  "IndexIterator_new l = \<lparr>leaf_ptr = l, index = 0\<rparr>"




definition increment ::
  "('k, 'v) reinterpret \<Rightarrow> ('k, 'v) BufferPoolManager \<Rightarrow> IndexIterator \<Rightarrow>
     index_error + (IndexIterator \<times> ('k, 'v) BufferPoolManager)" where
  "increment R b it =
     (case leaf_ptr it of
        None \<Rightarrow> Inl null_dereference
      | Some l \<Rightarrow>
          let i = index it + 1 in
          if i = GetSize (page_at R b l) then
            (let next_leaf_id = next_page_id (page_at R b l);
                 (ok, b1) = FetchPage b next_leaf_id
             in if \<not> ok then Inl bad_alloc
                else Inr (\<lparr>leaf_ptr = Some next_leaf_id, index = 0\<rparr>, b1))
          else Inr (it\<lparr>index := i\<rparr>, b))"

section \<open>B+ tree (src/project/src/index/b_plus_tree.cpp)\<close>

subsection \<open>Page operations\<close>

text \<open>
  Modelled from the spec: the operations of the leaf and internal pages (section 4.4)
  and of the header page (section 6), whose classes are not among the sources. Keys are
  compared by the order of the key type: \<open>comparator_(a, b) < 0\<close> is \<open>a < b\<close>. A
  lookup in a key-ordered array by binary search finds the entry of a key if there is
  one; the model searches the array for it. An operation that reads a slot beyond the
  entries gives \<open>None\<close>.
\<close>

fun sorted_insert :: "'k::linorder \<Rightarrow> 'a \<Rightarrow> ('k \<times> 'a) list \<Rightarrow> ('k \<times> 'a) list" where
  "sorted_insert k v [] = [(k, v)]"
| "sorted_insert k v ((k', v') # xs) =
     (if k' < k then (k', v') # sorted_insert k v xs else (k, v) # (k', v') # xs)"

definition leaf_Lookup :: "('k, 'v) reinterpret \<Rightarrow> ('k, 'v) BPlusTreePage \<Rightarrow> 'k \<Rightarrow> 'v option" where
  "leaf_Lookup R t key = map_of (leaf_array R t) key"

definition leaf_Insert ::
  "('k::linorder, 'v) reinterpret \<Rightarrow> ('k, 'v) BPlusTreePage \<Rightarrow> 'k \<Rightarrow> 'v \<Rightarrow> ('k, 'v) BPlusTreePage" where
  "leaf_Insert R t key val = t\<lparr>array := LeafArray (sorted_insert key val (leaf_array R t))\<rparr>"

definition leaf_KeyAt :: "('k, 'v) reinterpret \<Rightarrow> ('k, 'v) BPlusTreePage \<Rightarrow> nat \<Rightarrow> 'k option" where
  "leaf_KeyAt R t i =
     (if i < length (leaf_array R t) then Some (fst (leaf_array R t ! i)) else None)"

definition internal_KeyAt :: "('k, 'v) reinterpret \<Rightarrow> ('k, 'v) BPlusTreePage \<Rightarrow> nat \<Rightarrow> 'k option" where
  "internal_KeyAt R t i =
     (if i < length (internal_array R t) then Some (fst (internal_array R t ! i)) else None)"

text \<open>
  \<open>MoveHalfTo\<close>: the upper half of the entries goes to the recipient; a leaf also
  links the sibling chain. The result is the page and the recipient afterwards.
\<close>

definition leaf_MoveHalfTo ::
  "('k, 'v) reinterpret \<Rightarrow> ('k, 'v) BPlusTreePage \<Rightarrow> ('k, 'v) BPlusTreePage \<Rightarrow>
     ('k, 'v) BPlusTreePage \<times> ('k, 'v) BPlusTreePage" where
  "leaf_MoveHalfTo R t recipient =
     (let xs = leaf_array R t; h = length xs div 2 in
      (t\<lparr>array := LeafArray (take h xs), next_page_id := page_id recipient\<rparr>,
       recipient\<lparr>array := LeafArray (leaf_array R recipient @ drop h xs),
                 next_page_id := next_page_id t\<rparr>))"

definition internal_MoveHalfTo ::
  "('k, 'v) reinterpret \<Rightarrow> ('k, 'v) BPlusTreePage \<Rightarrow> ('k, 'v) BPlusTreePage \<Rightarrow>
     ('k, 'v) BPlusTreePage \<times> ('k, 'v) BPlusTreePage" where
  "internal_MoveHalfTo R t recipient =
     (let ys = internal_array R t; h = length ys div 2 in
      (t\<lparr>array := InternalArray (take h ys)\<rparr>,
       recipient\<lparr>array := InternalArray (internal_array R recipient @ drop h ys)\<rparr>))"

text \<open>
  \<open>Lookup\<close> of an internal page: the child of the largest key, from slot 1 on, that is
  not above the search key; the child of slot 0 if there is none.
\<close>

definition internal_Lookup ::
  "('k::linorder, 'v) reinterpret \<Rightarrow> ('k, 'v) BPlusTreePage \<Rightarrow> 'k \<Rightarrow> page_id_t option" where
  "internal_Lookup R t key =
     (case internal_array R t of
        [] \<Rightarrow> None
      | (k0, c0) # rest \<Rightarrow> Some (fold (\<lambda>(k, c) acc. if k \<le> key then c else acc) rest c0))"

text \<open>\<open>PopulateNewRoot\<close> writes the two children and the key of slot 1; the key of slot 0 stays.\<close>

definition PopulateNewRoot ::
  "('k, 'v) reinterpret \<Rightarrow> ('k, 'v) BPlusTreePage \<Rightarrow> page_id_t \<Rightarrow> 'k \<Rightarrow> page_id_t \<Rightarrow>
     ('k, 'v) BPlusTreePage" where
  "PopulateNewRoot R t old_value new_key new_value =
     (let k0 = (case internal_array R t of [] \<Rightarrow> zero_key R | (k, c) # rest \<Rightarrow> k)
      in t\<lparr>array := InternalArray [(k0, old_value), (new_key, new_value)]\<rparr>)"

fun insert_after :: "page_id_t \<Rightarrow> 'k \<times> page_id_t \<Rightarrow> ('k \<times> page_id_t) list \<Rightarrow> ('k \<times> page_id_t) list option" where
  "insert_after old e [] = None"
| "insert_after old e ((k, c) # ys) =
     (if c = old then Some ((k, c) # e # ys)
      else map_option (\<lambda>zs. (k, c) # zs) (insert_after old e ys))"

text \<open>\<open>InsertNodeAfter\<close>: \<open>None\<close> when no entry holds \<open>old_value\<close>.\<close>

definition InsertNodeAfter ::
  "('k, 'v) reinterpret \<Rightarrow> ('k, 'v) BPlusTreePage \<Rightarrow> page_id_t \<Rightarrow> 'k \<Rightarrow> page_id_t \<Rightarrow>
     ('k, 'v) BPlusTreePage option" where
  "InsertNodeAfter R t old_value new_key new_value =
     map_option (\<lambda>ys. t\<lparr>array := InternalArray ys\<rparr>)
       (insert_after old_value (new_key, new_value) (internal_array R t))"

definition InsertRecord :: "(string \<times> page_id_t) list \<Rightarrow> string \<Rightarrow> page_id_t \<Rightarrow> (string \<times> page_id_t) list" where
  "InsertRecord recs name root_id =
     (if map_of recs name = None then recs @ [(name, root_id)] else recs)"

definition UpdateRecord :: "(string \<times> page_id_t) list \<Rightarrow> string \<Rightarrow> page_id_t \<Rightarrow> (string \<times> page_id_t) list" where
  "UpdateRecord recs name root_id =
     map (\<lambda>(n, p). if n = name then (n, root_id) else (n, p)) recs"

subsection \<open>The tree\<close>

text \<open>
  A pointer to a page is the id under which the frame was fetched; \<open>GetPageId()\<close> is
  the \<open>page_id\<close> field of the page in that frame. The loops run on fuel: a result
  \<open>None\<close> means that the fuel did not suffice. \<open>Some (Inl e)\<close> is a call that ends with
  \<open>e\<close>, \<open>Some (Inr x)\<close> one that returns.
\<close>

record ('k, 'v) BPlusTree =
  index_name :: string
  root_page_id :: page_id_t
  bpm :: "('k, 'v) BufferPoolManager"

type_synonym 'a result = "(index_error + 'a) option"

definition ok :: "'a \<Rightarrow> 'a result" where
  "ok x = Some (Inr x)"

definition fail :: "index_error \<Rightarrow> 'a result" where
  "fail e = Some (Inl e)"

definition bind_r :: "'a result \<Rightarrow> ('a \<Rightarrow> 'b result) \<Rightarrow> 'b result" where
  "bind_r m f = (case m of None \<Rightarrow> None | Some (Inl e) \<Rightarrow> Some (Inl e) | Some (Inr x) \<Rightarrow> f x)"

definition IsEmpty :: "('k, 'v) BPlusTree \<Rightarrow> bool" where
  "IsEmpty t = (root_page_id t = INVALID_PAGE_ID)"

text \<open>
  The loop of \<open>GetValue\<close>, \<open>while (node->IsLeafPage())\<close>: the node is read as an
  internal page, the child is fetched and unpinned at once. The result \<open>None\<close> for the
  node is the \<open>return false\<close> inside the loop.
\<close>

fun GetValue_loop ::
  "nat \<Rightarrow> ('k::linorder, 'v) reinterpret \<Rightarrow> ('k, 'v) BufferPoolManager \<Rightarrow> page_id_t \<Rightarrow> 'k \<Rightarrow>
     (page_id_t option \<times> ('k, 'v) BufferPoolManager) result" where
  "GetValue_loop 0 R b node key =
     (if IsLeafPage (page_at R b node) then None else ok (Some node, b))"
| "GetValue_loop (Suc n) R b node key =
     (if IsLeafPage (page_at R b node) then
        (case internal_Lookup R (page_at R b node) key of
           None \<Rightarrow> fail stale_read
         | Some nxt \<Rightarrow>
             (let (fetched, b1) = FetchPage b nxt in
              if \<not> fetched then ok (None, b1)
              else let (u, b2) = UnpinPage b1 (page_id (page_at R b1 nxt)) False
                   in GetValue_loop n R b2 nxt key))
      else ok (Some node, b))"

text \<open>\<open>GetValue\<close>: the result is the return value, the vector \<open>result\<close> and the tree.\<close>

definition GetValue ::
  "nat \<Rightarrow> ('k::linorder, 'v) reinterpret \<Rightarrow> ('k, 'v) BPlusTree \<Rightarrow> 'k \<Rightarrow> 'v list \<Rightarrow>
     (bool \<times> 'v list \<times> ('k, 'v) BPlusTree) result" where
  "GetValue fuel R t key res =
     (if IsEmpty t then ok (False, res, t)
      else
        let (fetched, b1) = FetchPage (bpm t) (root_page_id t) in
        if \<not> fetched then ok (False, res, t\<lparr>bpm := b1\<rparr>)
        else
          bind_r (GetValue_loop fuel R b1 (root_page_id t) key) (\<lambda>(nd, b2).
            case nd of
              None \<Rightarrow> ok (False, res, t\<lparr>bpm := b2\<rparr>)
            | Some node \<Rightarrow>
                (case leaf_Lookup R (page_at R b2 node) key of
                   Some v \<Rightarrow>
                     (let (u, b3) = UnpinPage b2 (page_id (page_at R b2 node)) False
                      in ok (True, res @ [v], t\<lparr>bpm := b3\<rparr>))
                 | None \<Rightarrow> ok (False, res, t\<lparr>bpm := b2\<rparr>))))"

text \<open>
  \<open>UpdateRootPageId\<close>. The header page pointer is used without a null check.
\<close>

definition UpdateRootPageId ::
  "('k, 'v) reinterpret \<Rightarrow> ('k, 'v) BPlusTree \<Rightarrow> bool \<Rightarrow> ('k, 'v) BPlusTree result" where
  "UpdateRootPageId R t insert_record =
     (let (fetched, b1) = FetchPage (bpm t) HEADER_PAGE_ID in
      if \<not> fetched then fail null_dereference
      else
        let recs = as_header R (pages b1 HEADER_PAGE_ID);
            recs1 = (if insert_record then InsertRecord recs (index_name t) (root_page_id t)
                     else UpdateRecord recs (index_name t) (root_page_id t));
            b2 = b1\<lparr>pages := (pages b1)(HEADER_PAGE_ID := HeaderPage recs1)\<rparr>;
            (u, b3) = UnpinPage b2 HEADER_PAGE_ID True
        in ok (t\<lparr>bpm := b3\<rparr>))"

text \<open>
  \<open>StartNewTree\<close>: the new page is used as a leaf as it comes from \<open>NewPage\<close>.
\<close>

definition StartNewTree ::
  "('k::linorder, 'v) reinterpret \<Rightarrow> ('k, 'v) BPlusTree \<Rightarrow> 'k \<Rightarrow> 'v \<Rightarrow> ('k, 'v) BPlusTree result" where
  "StartNewTree R t key val =
     (let (np, b1) = NewPage (bpm t) in
      case np of
        None \<Rightarrow> fail bad_alloc
      | Some root \<Rightarrow>
          bind_r (UpdateRootPageId R (t\<lparr>root_page_id := root, bpm := b1\<rparr>) True) (\<lambda>t1.
            ok (t1\<lparr>bpm := write_page (bpm t1) root
                              (leaf_Insert R (page_at R (bpm t1) root) key val)\<rparr>)))"

text \<open>
  The loop \<open>while (!node->IsLeafPage())\<close> of \<open>InsertIntoLeaf\<close>: look the child up,
  unpin the node, fetch the child. A null child is dereferenced by the loop test.
\<close>

fun descend_to_leaf ::
  "nat \<Rightarrow> ('k::linorder, 'v) reinterpret \<Rightarrow> ('k, 'v) BufferPoolManager \<Rightarrow> page_id_t \<Rightarrow> 'k \<Rightarrow>
     (page_id_t \<times> ('k, 'v) BufferPoolManager) result" where
  "descend_to_leaf 0 R b node key =
     (if \<not> IsLeafPage (page_at R b node) then None else ok (node, b))"
| "descend_to_leaf (Suc n) R b node key =
     (if \<not> IsLeafPage (page_at R b node) then
        (case internal_Lookup R (page_at R b node) key of
           None \<Rightarrow> fail stale_read
         | Some child_page_id \<Rightarrow>
             (let (u, b1) = UnpinPage b (page_id (page_at R b node)) False;
                  (fetched, b2) = FetchPage b1 child_page_id
              in if \<not> fetched then fail null_dereference
                 else descend_to_leaf n R b2 child_page_id key))
      else ok (node, b))"

text \<open>\<open>Split\<close> for a leaf and for an internal page: the result is the pointer to the new page.\<close>

definition Split_leaf ::
  "('k, 'v) reinterpret \<Rightarrow> ('k, 'v) BufferPoolManager \<Rightarrow> page_id_t \<Rightarrow>
     (page_id_t \<times> ('k, 'v) BufferPoolManager) result" where
  "Split_leaf R b node =
     (let (np, b1) = NewPage b in
      case np of
        None \<Rightarrow> fail bad_alloc
      | Some new_node \<Rightarrow>
          (let (t1, r1) = leaf_MoveHalfTo R (page_at R b1 node) (page_at R b1 new_node)
           in ok (new_node, write_page (write_page b1 node t1) new_node r1)))"

definition Split_internal ::
  "('k, 'v) reinterpret \<Rightarrow> ('k, 'v) BufferPoolManager \<Rightarrow> page_id_t \<Rightarrow>
     (page_id_t \<times> ('k, 'v) BufferPoolManager) result" where
  "Split_internal R b node =
     (let (np, b1) = NewPage b in
      case np of
        None \<Rightarrow> fail bad_alloc
      | Some new_node \<Rightarrow>
          (let (t1, r1) = internal_MoveHalfTo R (page_at R b1 node) (page_at R b1 new_node)
           in ok (new_node, write_page (write_page b1 node t1) new_node r1)))"

text \<open>The three \<open>UnpinPage(..., true)\<close> calls that end two branches of \<open>InsertIntoParent\<close>.\<close>

definition unpin_dirty ::
  "('k, 'v) reinterpret \<Rightarrow> ('k, 'v) BufferPoolManager \<Rightarrow> page_id_t list \<Rightarrow> ('k, 'v) BufferPoolManager" where
  "unpin_dirty R b nodes = fold (\<lambda>node b1. snd (UnpinPage b1 (page_id (page_at R b1 node)) True)) nodes b"

fun InsertIntoParent ::
  "nat \<Rightarrow> ('k::linorder, 'v) reinterpret \<Rightarrow> ('k, 'v) BPlusTree \<Rightarrow> page_id_t \<Rightarrow> 'k \<Rightarrow> page_id_t \<Rightarrow>
     ('k, 'v) BPlusTree result" where
  "InsertIntoParent fuel R t old_node key new_node =
     (let b = bpm t in
      if IsRootPage (page_at R b old_node) then
        (let (np, b1) = NewPage b in
         case np of
           None \<Rightarrow> fail bad_alloc
         | Some root \<Rightarrow>
             (let b2 = write_page b1 root
                         (PopulateNewRoot R (page_at R b1 root) (page_id (page_at R b1 old_node))
                            key (page_id (page_at R b1 new_node)));
                  b3 = write_page b2 old_node ((page_at R b2 old_node)\<lparr>parent_page_id := root\<rparr>);
                  b4 = write_page b3 new_node ((page_at R b3 new_node)\<lparr>parent_page_id := root\<rparr>)
              in bind_r (UpdateRootPageId R (t\<lparr>root_page_id := root, bpm := b4\<rparr>) False) (\<lambda>t1.
                   ok (t1\<lparr>bpm := unpin_dirty R (bpm t1) [old_node, new_node, root]\<rparr>))))
      else
        (let parent = parent_page_id (page_at R b old_node);
             (fetched, b1) = FetchPage b parent
         in
         if \<not> fetched then fail bad_alloc
         else if GetSize (page_at R b1 parent) < max_size (page_at R b1 parent) then
           (case InsertNodeAfter R (page_at R b1 parent) (page_id (page_at R b1 old_node)) key
                   (page_id (page_at R b1 new_node)) of
              None \<Rightarrow> fail precondition_violated
            | Some pg \<Rightarrow>
                (let b2 = write_page b1 parent pg;
                     b3 = write_page b2 new_node
                            ((page_at R b2 new_node)\<lparr>parent_page_id := page_id (page_at R b2 parent)\<rparr>)
                 in ok (t\<lparr>bpm := unpin_dirty R b3 [old_node, new_node, parent]\<rparr>)))
         else
           (case fuel of
              0 \<Rightarrow> None
            | Suc n \<Rightarrow>
                bind_r (Split_internal R b1 parent) (\<lambda>(internal2, b2).
                  case internal_KeyAt R (page_at R b2 internal2) 0 of
                    None \<Rightarrow> fail stale_read
                  | Some k0 \<Rightarrow>
                      (let target = (if key < k0 then parent else internal2) in
                       case InsertNodeAfter R (page_at R b2 target)
                              (page_id (page_at R b2 old_node)) key
                              (page_id (page_at R b2 new_node)) of
                         None \<Rightarrow> fail precondition_violated
                       | Some pg \<Rightarrow>
                           (let b3 = write_page b2 target pg;
                                b4 = write_page b3 new_node
                                       ((page_at R b3 new_node)
                                          \<lparr>parent_page_id := page_id (page_at R b3 target)\<rparr>);
                                b5 = unpin_dirty R b4 [old_node, new_node]
                            in case internal_KeyAt R (page_at R b5 internal2) 0 of
                                 None \<Rightarrow> fail stale_read
                               | Some k1 \<Rightarrow>
                                   InsertIntoParent n R (t\<lparr>bpm := b5\<rparr>) parent k1 internal2))))))"

definition InsertIntoLeaf ::
  "nat \<Rightarrow> ('k::linorder, 'v) reinterpret \<Rightarrow> ('k, 'v) BPlusTree \<Rightarrow> 'k \<Rightarrow> 'v \<Rightarrow>
     (bool \<times> ('k, 'v) BPlusTree) result" where
  "InsertIntoLeaf fuel R t key val =
     (let (fetched, b1) = FetchPage (bpm t) (root_page_id t) in
      if \<not> fetched then fail null_dereference
      else if \<not> IsRootPage (page_at R b1 (root_page_id t)) then fail assertion_failed
      else
        bind_r (descend_to_leaf fuel R b1 (root_page_id t) key) (\<lambda>(leaf, b2).
          if GetSize (page_at R b2 leaf) < max_size (page_at R b2 leaf) then
            (case leaf_Lookup R (page_at R b2 leaf) key of
               Some v \<Rightarrow> ok (False, t\<lparr>bpm := b2\<rparr>)
             | None \<Rightarrow>
                 (let b3 = write_page b2 leaf (leaf_Insert R (page_at R b2 leaf) key val);
                      (u, b4) = UnpinPage b3 (page_id (page_at R b3 leaf)) True
                  in ok (True, t\<lparr>bpm := b4\<rparr>)))
          else
            bind_r (Split_leaf R b2 leaf) (\<lambda>(leaf2, b3).
              case leaf_KeyAt R (page_at R b3 leaf2) 0 of
                None \<Rightarrow> fail stale_read
              | Some k0 \<Rightarrow>
                  (let target = (if key < k0 then leaf else leaf2);
                       b4 = write_page b3 target (leaf_Insert R (page_at R b3 target) key val)
                   in case leaf_KeyAt R (page_at R b4 leaf2) 0 of
                        None \<Rightarrow> fail stale_read
                      | Some k1 \<Rightarrow>
                          bind_r (InsertIntoParent fuel R (t\<lparr>bpm := b4\<rparr>) leaf k1 leaf2)
                            (\<lambda>t1. ok (True, t1))))))"

definition Insert ::
  "nat \<Rightarrow> ('k::linorder, 'v) reinterpret \<Rightarrow> ('k, 'v) BPlusTree \<Rightarrow> 'k \<Rightarrow> 'v \<Rightarrow>
     (bool \<times> ('k, 'v) BPlusTree) result" where
  "Insert fuel R t key val =
     (if IsEmpty t then bind_r (StartNewTree R t key val) (\<lambda>t1. ok (True, t1))
      else InsertIntoLeaf fuel R t key val)"

subsection \<open>GetValue as specified\<close>

text \<open>
  Modelled from the spec: \<open>GetValue\<close> as section 4.5.1 words it (the source differs in
  the loop test): starting at the root, look up on internal pages, unpinning each level
  before descending, until a leaf; then look up in the leaf and unpin it. The descent
  is the loop of \<open>InsertIntoLeaf\<close>. It is here to be compared with \<open>GetValue\<close>.
\<close>

definition GetValue_spec ::
  "nat \<Rightarrow> ('k::linorder, 'v) reinterpret \<Rightarrow> ('k, 'v) BPlusTree \<Rightarrow> 'k \<Rightarrow> 'v list \<Rightarrow>
     (bool \<times> 'v list \<times> ('k, 'v) BPlusTree) result" where
  "GetValue_spec fuel R t key res =
     (if IsEmpty t then ok (False, res, t)
      else
        let (fetched, b1) = FetchPage (bpm t) (root_page_id t) in
        if \<not> fetched then ok (False, res, t\<lparr>bpm := b1\<rparr>)
        else
          bind_r (descend_to_leaf fuel R b1 (root_page_id t) key) (\<lambda>(leaf, b2).
            let (u, b3) = UnpinPage b2 (page_id (page_at R b2 leaf)) False in
            case leaf_Lookup R (page_at R b2 leaf) key of
              Some v \<Rightarrow> ok (True, res @ [v], t\<lparr>bpm := b3\<rparr>)
            | None \<Rightarrow> ok (False, res, t\<lparr>bpm := b3\<rparr>)))"

text \<open>What a caller sees of a \<open>GetValue\<close>: the return value and the result vector.\<close>

definition outcome ::
  "(bool \<times> 'v list \<times> ('k, 'v) BPlusTree) result \<Rightarrow> (index_error + bool \<times> 'v list) option" where
  "outcome x = map_option (map_sum id (\<lambda>(r, res, t). (r, res))) x"

text \<open>The return value of an \<open>Insert\<close> and the content of one page after it.\<close>

definition after_insert ::
  "(bool \<times> ('k, 'v) BPlusTree) result \<Rightarrow> page_id_t \<Rightarrow> (index_error + bool \<times> ('k, 'v) Page) option" where
  "after_insert x p = map_option (map_sum id (\<lambda>(r, t). (r, pages (bpm t) p))) x"

subsection \<open>Redistribute\<close>

text \<open>
  Modelled from the spec: \<open>ValueIndex\<close> of the internal page (section 4.4): the index
  of the entry whose value is the page id, -1 if there is none.
\<close>

fun index_of_value :: "page_id_t \<Rightarrow> ('k \<times> page_id_t) list \<Rightarrow> int \<Rightarrow> int" where
  "index_of_value v [] i = - 1"
| "index_of_value v ((k, c) # ys) i = (if c = v then i else index_of_value v ys (i + 1))"

definition ValueIndex :: "('k, 'v) reinterpret \<Rightarrow> ('k, 'v) BPlusTreePage \<Rightarrow> page_id_t \<Rightarrow> int" where
  "ValueIndex R t v = index_of_value v (internal_array R t) 0"

text \<open>
  \<open>Redistribute\<close>. The two page operations it calls, \<open>MoveFirstToEndOf\<close> and
  \<open>MoveLastToFrontOf\<close>, are not among the sources; they are the parameters
  \<open>move_first\<close> and \<open>move_last\<close>, which take the buffer pool manager, the pointers to
  the neighbour and the node (and the index) and give the buffer pool manager afterwards.
\<close>

definition Redistribute ::
  "(('k, 'v) BufferPoolManager \<Rightarrow> page_id_t \<Rightarrow> page_id_t \<Rightarrow> ('k, 'v) BufferPoolManager) \<Rightarrow>
   (('k, 'v) BufferPoolManager \<Rightarrow> page_id_t \<Rightarrow> page_id_t \<Rightarrow> int \<Rightarrow> ('k, 'v) BufferPoolManager) \<Rightarrow>
   ('k, 'v) reinterpret \<Rightarrow> ('k, 'v) BufferPoolManager \<Rightarrow> page_id_t \<Rightarrow> page_id_t \<Rightarrow> int \<Rightarrow>
     ('k, 'v) BufferPoolManager result" where
  "Redistribute move_first move_last R b neighbor_node node idx =
     (if idx = 0 then ok (move_first b neighbor_node node)
      else
        let parent = parent_page_id (page_at R b node);
            (fetched, b1) = FetchPage b parent
        in if \<not> fetched then fail bad_alloc
           else ok (move_last b1 neighbor_node node
                      (ValueIndex R (page_at R b1 parent) (page_id (page_at R b1 node)))))"



section \<open>Example states\<close>

definition rid0 :: RID where
  "rid0 = (0, 0)"

definition txn0 :: Transaction where
  "txn0 = \<lparr>txn_id = 0, state = GROWING, shared_lock_set = {}, exclusive_lock_set = {}\<rparr>"

definition txn1 :: Transaction where
  "txn1 = \<lparr>txn_id = 1, state = GROWING, shared_lock_set = {}, exclusive_lock_set = {}\<rparr>"

text \<open>The lock table after transaction 0 was granted a shared lock on \<open>rid0\<close>.\<close>

definition shared_held_v1 :: lock_table where
  "shared_held_v1 =
     [rid0 \<mapsto> \<lparr>exclusive_cnt = 0, oldest = 0,
                queue = [\<lparr>r_txn_id = 0, mode = SHARED, granted = True\<rparr>]\<rparr>]"

definition shared_held_v2 :: lock_table2 where
  "shared_held_v2 =
     [rid0 \<mapsto> \<lparr>oldest2 = 0, queue2 = [\<lparr>r_txn_id = 0, mode = SHARED, granted = True\<rparr>]\<rparr>]"

text \<open>
  \<open>std::hash<int>\<close> of the usual standard libraries: the value converted to \<open>size_t\<close>.
  The expectations of the repository's extendible_hash_test.cpp are those of this hash.
\<close>

definition std_hash_int :: "int \<Rightarrow> nat" where
  "std_hash_int k = nat (k mod 2 ^ 64)"

definition inserts :: "int list \<Rightarrow> (int, string) hash_op list" where
  "inserts ks = map (\<lambda>k. Ins k ''v'') ks"

text \<open>A sample layout, for the places where a concrete one is needed.\<close>

definition sample_layout :: "(int, int) reinterpret" where
  "sample_layout =
     \<lparr>internal_as_leaf = (\<lambda>ys. []), leaf_as_internal = (\<lambda>xs. []),
      header_as_tree = (\<lambda>recs. zero_page), tree_as_header = (\<lambda>t. []), zero_key = 0\<rparr>"


text \<open>A pool whose page 1 is a root leaf with the keys 1 and 2.\<close>

definition leaf12 :: "(int, int) BPlusTreePage" where
  "leaf12 =
     \<lparr>page_type = LEAF_PAGE, max_size = 4, parent_page_id = INVALID_PAGE_ID, page_id = 1,
      next_page_id = INVALID_PAGE_ID, array = LeafArray [(1, 10), (2, 20)]\<rparr>"

definition pool_leaf12 :: "(int, int) BufferPoolManager" where
  "pool_leaf12 =
     \<lparr>pool_size = 10,
      pages = (\<lambda>p. if p = 1 then TreePage leaf12
                   else if p = 0 then HeaderPage [(''index'', 1)] else TreePage zero_page),
      pin_table = [], is_dirty = (\<lambda>p. False), disk_next_page_id = 2\<rparr>"

definition tree12 :: "(int, int) BPlusTree" where
  "tree12 = \<lparr>index_name = ''index'', root_page_id = 1, bpm = pool_leaf12\<rparr>"

text \<open>The same tree with a leaf capacity of 2: the root leaf is full.\<close>

definition pool_full :: "(int, int) BufferPoolManager" where
  "pool_full =
     pool_leaf12\<lparr>pages := (pages pool_leaf12)(1 := TreePage (leaf12\<lparr>max_size := 2\<rparr>))\<rparr>"

definition tree_full :: "(int, int) BPlusTree" where
  "tree_full = \<lparr>index_name = ''index'', root_page_id = 1, bpm = pool_full\<rparr>"

text \<open>
  A tree of two levels: the root is the internal page 3 with the separator key 5, its
  children are the leaves 1 (key 1) and 2 (the entries \<open>xs\<close>).
\<close>

definition root3 :: "(int, int) BPlusTreePage" where
  "root3 =
     \<lparr>page_type = INTERNAL_PAGE, max_size = 4, parent_page_id = INVALID_PAGE_ID, page_id = 3,
      next_page_id = 0, array = InternalArray [(0, 1), (5, 2)]\<rparr>"

definition leaf_of :: "page_id_t \<Rightarrow> page_id_t \<Rightarrow> (int \<times> int) list \<Rightarrow> (int, int) BPlusTreePage" where
  "leaf_of p nxt xs =
     \<lparr>page_type = LEAF_PAGE, max_size = 4, parent_page_id = 3, page_id = p,
      next_page_id = nxt, array = LeafArray xs\<rparr>"

definition two_level :: "(int \<times> int) list \<Rightarrow> (int, int) BPlusTree" where
  "two_level xs =
     \<lparr>index_name = ''index'', root_page_id = 3,
      bpm = \<lparr>pool_size = 10,
             pages = (\<lambda>p. if p = 3 then TreePage root3
                          else if p = 1 then TreePage (leaf_of 1 2 [(1, 10)])
                          else if p = 2 then TreePage (leaf_of 2 INVALID_PAGE_ID xs)
                          else if p = 0 then HeaderPage [(''index'', 3)]
                          else TreePage zero_page),
             pin_table = [], is_dirty = (\<lambda>p. False), disk_next_page_id = 4\<rparr>\<rparr>"

section \<open>Lock manager: properties\<close>

lemma find_request_absent: "t \<notin> r_txn_id ` set rs \<Longrightarrow> find_request t rs i = None"
  by (induction rs arbitrary: i) auto

text \<open>
  Claim C3. Under strict two-phase locking \<open>Unlock\<close> is to go through for a transaction
  that is COMMITTED or ABORTED. In both revisions the test
  \<open>state != COMMITTED || state != ABORTED\<close> holds for every state: the call by a
  committed transaction that holds a granted lock sets it to ABORTED, returns false and
  leaves its request in the queue.
\<close>

theorem Unlock_strict_committed_rejected:
  "Unlock_v1 True shared_held_v1 (txn0\<lparr>state := COMMITTED\<rparr>) rid0
     = (Returns False, txn0\<lparr>state := ABORTED\<rparr>, shared_held_v1)
   \<and> Unlock_v2 True shared_held_v2 (txn0\<lparr>state := COMMITTED\<rparr>) rid0
     = (Returns False, txn0\<lparr>state := ABORTED\<rparr>, shared_held_v2)"
  by (simp add: Unlock_v1_def Unlock_v2_def txn0_def)

theorem Unlock_strict_committed_rejected_witness:
  "fst (Unlock_v1 True shared_held_v1 (txn0\<lparr>state := COMMITTED\<rparr>) rid0) = Returns False
   \<and> state (fst (snd (Unlock_v2 True shared_held_v2 (txn0\<lparr>state := COMMITTED\<rparr>) rid0)))
       = ABORTED"
  using Unlock_strict_committed_rejected by simp

text \<open>The same for every transaction and table: under strict 2PL no \<open>Unlock\<close> succeeds.\<close>

lemma Unlock_strict_always_rejected:
  "Unlock_v1 True tbl txn rid = (Returns False, txn\<lparr>state := ABORTED\<rparr>, tbl)"
  "Unlock_v2 True tbl2 txn rid = (Returns False, txn\<lparr>state := ABORTED\<rparr>, tbl2)"
  by (cases "state txn"; simp add: Unlock_v1_def Unlock_v2_def)+

text \<open>
  Claim C4. A younger transaction that asks for a shared lock while only shared
  requests are queued is to be admitted. In the second revision \<open>LockShared\<close> aborts
  every transaction younger than \<open>oldest\<close>: after transaction 0 was granted its shared
  lock, the request of transaction 1 is refused and the transaction is aborted.
\<close>

theorem LockShared_v2_younger_shared_aborted:
  "LockShared_v2 Map.empty txn0 rid0
     = (Returns True, txn0\<lparr>shared_lock_set := {rid0}\<rparr>, shared_held_v2)
   \<and> LockShared_v2 shared_held_v2 txn1 rid0
     = (Returns False, txn1\<lparr>state := ABORTED\<rparr>, shared_held_v2)"
  by (simp add: LockShared_v2_def grant_shared_v2_def txn0_def txn1_def shared_held_v2_def)

text \<open>The first revision grants both shared locks in the same run.\<close>

lemma LockShared_v1_younger_shared_granted:
  "LockShared_v1 Map.empty txn0 rid0
     = (Returns True, txn0\<lparr>shared_lock_set := {rid0}\<rparr>, shared_held_v1)
   \<and> fst (LockShared_v1 shared_held_v1 txn1 rid0) = Returns True"
  by (simp add: LockShared_v1_def grant_shared_v1_def txn0_def txn1_def shared_held_v1_def)

text \<open>
  The admission test of the first revision reads the counter \<open>exclusive_cnt\<close>, for
  every table: a growing transaction is aborted exactly when the counter is not zero and
  the transaction is younger than \<open>oldest\<close>.
\<close>

lemma LockShared_v1_admission:
  assumes "state txn = GROWING" and "tbl rid = Some w"
  shows "LockShared_v1 tbl txn rid = (Returns False, txn\<lparr>state := ABORTED\<rparr>, tbl)
           \<longleftrightarrow> exclusive_cnt w \<noteq> 0 \<and> txn_id txn > oldest w"
  using assms
  by (auto simp: LockShared_v1_def grant_shared_v1_def Let_def split: option.splits)

text \<open>
  The counter can disagree with the queue: \<open>LockUpgrade\<close> turns a shared request into
  an exclusive one and does not count it. After transaction 0 took a shared lock and
  upgraded it, the queue holds an exclusive request and the counter is 0, and the first
  revision lets the younger transaction 1 queue up behind it.
\<close>

lemma LockShared_v1_after_upgrade_admits_younger:
  "LockUpgrade_v1 shared_held_v1 (txn0\<lparr>shared_lock_set := {rid0}\<rparr>) rid0
     = (Returns True, txn0\<lparr>exclusive_lock_set := {rid0}\<rparr>,
        [rid0 \<mapsto> \<lparr>exclusive_cnt = 0, oldest = 0,
                   queue = [\<lparr>r_txn_id = 0, mode = EXCLUSIVE, granted = True\<rparr>]\<rparr>])
   \<and> LockShared_v1
        [rid0 \<mapsto> \<lparr>exclusive_cnt = 0, oldest = 0,
                   queue = [\<lparr>r_txn_id = 0, mode = EXCLUSIVE, granted = True\<rparr>]\<rparr>] txn1 rid0
     = (Blocks, txn1,
        [rid0 \<mapsto> \<lparr>exclusive_cnt = 0, oldest = 0,
                   queue = [\<lparr>r_txn_id = 0, mode = EXCLUSIVE, granted = True\<rparr>,
                            \<lparr>r_txn_id = 1, mode = SHARED, granted = False\<rparr>]\<rparr>])"
  by (simp add: LockUpgrade_v1_def LockShared_v1_def grant_shared_v1_def txn0_def txn1_def
        shared_held_v1_def)

text \<open>
  Claim C10. On a lock manager without strict 2PL, \<open>Unlock\<close> by a growing transaction
  that has no request in the queue of the record (the queue exists) returns true, moves
  the transaction to SHRINKING and leaves the lock table as it is. Both revisions.
\<close>

theorem Unlock_without_request:
  assumes "state txn = GROWING"
  shows "(tbl rid = Some w \<and> txn_id txn \<notin> r_txn_id ` set (queue w) \<longrightarrow>
            Unlock_v1 False tbl txn rid = (Returns True, txn\<lparr>state := SHRINKING\<rparr>, tbl))
       \<and> (tbl2 rid = Some w2 \<and> txn_id txn \<notin> r_txn_id ` set (queue2 w2) \<longrightarrow>
            Unlock_v2 False tbl2 txn rid = (Returns True, txn\<lparr>state := SHRINKING\<rparr>, tbl2))"
  using assms by (simp add: Unlock_v1_def Unlock_v2_def find_request_absent)

theorem Unlock_without_request_witness:
  "state txn1 = GROWING \<and> shared_held_v1 rid0 \<noteq> None \<and> shared_held_v2 rid0 \<noteq> None
   \<and> Unlock_v1 False shared_held_v1 txn1 rid0
       = (Returns True, txn1\<lparr>state := SHRINKING\<rparr>, shared_held_v1)
   \<and> Unlock_v2 False shared_held_v2 txn1 rid0
       = (Returns True, txn1\<lparr>state := SHRINKING\<rparr>, shared_held_v2)"
  using Unlock_without_request
    [of txn1 shared_held_v1 rid0
        "\<lparr>exclusive_cnt = 0, oldest = 0,
          queue = [\<lparr>r_txn_id = 0, mode = SHARED, granted = True\<rparr>]\<rparr>"
        shared_held_v2
        "\<lparr>oldest2 = 0, queue2 = [\<lparr>r_txn_id = 0, mode = SHARED, granted = True\<rparr>]\<rparr>"]
  by (simp add: txn1_def shared_held_v1_def shared_held_v2_def)

section \<open>LRU replacer: properties\<close>

lemmas lru_defs =
  Insert_lru_def Erase_def Victim_def unlink_def set_tail_next_def load_def upd_def
  and_then_def LRUReplacer_new_def dec_size_def Size_def contents_def

text \<open>
  Claim C8. \<open>Erase\<close> is to return true for a value that is present, and \<open>Insert\<close> of a
  present value is to move it to the MRU end. When the value sits in the last node,
  both run \<open>pre->next->pre = pre\<close> with \<open>pre->next\<close> null: after \<open>Insert(1)\<close> on a
  new replacer, \<open>Erase(1)\<close> follows a null pointer, and so does a second \<open>Insert(1)\<close>.
\<close>

theorem Erase_last_node_null_dereference:
  "and_then (Insert_lru (LRUReplacer_new (0::int)) 1) (\<lambda>r. Erase r 1) = Inl NullDereference
   \<and> and_then (Insert_lru (LRUReplacer_new (0::int)) 1) (\<lambda>r. Insert_lru r 1)
       = Inl NullDereference"
  by (simp add: lru_defs)

text \<open>
  The run of the repository's lru_replacer_test.cpp goes through in the model with the
  values the test expects: no call of it touches the last node.
\<close>

lemma lru_sample_test:
  "and_then (Insert_all (LRUReplacer_new (0::int)) [1, 2, 3, 4, 5, 6, 1]) (\<lambda>r0.
   and_then (Victim r0) (\<lambda>(v1, r1).
   and_then (Victim r1) (\<lambda>(v2, r2).
   and_then (Victim r2) (\<lambda>(v3, r3).
   and_then (Erase r3 4) (\<lambda>(e1, r4).
   and_then (Erase r4 6) (\<lambda>(e2, r5).
   and_then (Victim r5) (\<lambda>(v4, r6).
   and_then (Victim r6) (\<lambda>(v5, r7).
     Inr (Size r0, v1, v2, v3, e1, e2, Size r5, v4, v5, Size r7)))))))))
   = Inr (6, Some 2, Some 3, Some 4, False, True, 2, Some 5, Some 1, 0)"
  by (simp add: lru_defs)

section \<open>Extendible hash table: properties\<close>

text \<open>
  Claim C5. \<open>Find\<close> is to return the value of the last \<open>Insert\<close> of a key. A split that
  does not grow the directory stores the new bucket in the one slot \<open>new_bucket->id\<close>;
  the other slots that named the old bucket keep naming it. With buckets of size 2,
  after the inserts of 0, 1, 4, 8, 3 and 7 the key 7 is in the new bucket, slot 7 still
  names the old one, and \<open>Find(7)\<close> returns false.
\<close>

theorem Find_misses_inserted_key:
  "and_then (run_ops std_hash_int (ExtendibleHash_new 2) (inserts [0, 1, 4, 8, 3, 7]))
     (\<lambda>t. Find std_hash_int t 7) = Inr None"
  by code_simp

text \<open>
  Claim C6. The global depth is to be at least every local depth, and overflow buckets
  are to appear only at a local depth of 64. \<open>split\<close> stops at the local depth
  \<open>sizeof(size_t)\<close>, which is 8, chains the overflow bucket there, and \<open>Insert\<close>
  returns without growing the directory: after the inserts of 0, 128 and 256 the global
  depth is 0, the bucket of slot 0 has local depth 8 and an overflow bucket holding 128.
\<close>

theorem overflow_at_depth_8_global_depth_0:
  "and_then (run_ops std_hash_int (ExtendibleHash_new 2) (inserts [0, 128, 256]))
     (\<lambda>t. Inr (GetGlobalDepth t, GetLocalDepth t 0,
                map (map_option b_items \<circ> b_next) (store t)))
   = Inr (0, Inr 8, [Some [(128, ''v'')]])"
  by code_simp

text \<open>The runs of the repository's extendible_hash_test.cpp give what the test expects.\<close>

lemma hash_sample_test:
  "and_then (run_ops std_hash_int (ExtendibleHash_new 2) (inserts [1, 2, 3, 4, 5, 6, 7, 8, 9]))
     (\<lambda>t. Inr (map (GetLocalDepth t) [0, 1, 2, 3], map (Find std_hash_int t) [9, 8, 2, 10]))
   = Inr ([Inr 2, Inr 3, Inr 2, Inr 2],
          [Inr (Some ''v''), Inr (Some ''v''), Inr (Some ''v''), Inr None])"
  "and_then (run_ops std_hash_int (ExtendibleHash_new 2) (inserts [0, 10, 16, 32, 64]))
     (\<lambda>t. Inr (GetGlobalDepth t)) = Inr 6"
  by code_simp+

section \<open>Index iterator: properties\<close>




section \<open>B+ tree: properties\<close>

lemmas tree_defs =
  GetValue_def GetValue_spec_def IsEmpty_def INVALID_PAGE_ID_def HEADER_PAGE_ID_def
  FetchPage_def UnpinPage_def NewPage_def pin_count_def set_pin_def page_at_def as_tree_def
  as_header_def write_page_def IsLeafPage_def IsRootPage_def GetSize_def leaf_array_def
  internal_array_def leaf_Lookup_def leaf_Insert_def leaf_KeyAt_def internal_KeyAt_def
  leaf_MoveHalfTo_def internal_MoveHalfTo_def internal_Lookup_def PopulateNewRoot_def
  InsertNodeAfter_def InsertRecord_def UpdateRecord_def ok_def fail_def bind_r_def
  UpdateRootPageId_def StartNewTree_def Split_leaf_def Split_internal_def unpin_dirty_def
  InsertIntoLeaf_def Insert_def outcome_def after_insert_def zero_page_def

text \<open>
  Claim C1. \<open>GetValue\<close> is to descend from the root through the internal pages to a
  leaf and to return true exactly for the keys of the tree. Its loop runs while the node
  is a leaf, so on a root that is an internal page it does not descend: it looks the
  key up in the root page read as a leaf and never reads a leaf. Whatever the bytes of
  the root give under that reading, and whatever the fuel, the outcome for the key 5 is
  the same on the tree whose leaf 2 holds 5 and on the tree whose leaf 2 holds 6
  instead; the descent of the specification returns true with the value on the first
  and false on the second.
\<close>

theorem GetValue_does_not_reach_leaves:
  "outcome (GetValue fuel R (two_level [(5, 50)]) 5 [])
     = outcome (GetValue fuel R (two_level [(6, 60)]) 5 [])
   \<and> outcome (GetValue_spec 1 R (two_level [(5, 50)]) 5 []) = Some (Inr (True, [50]))
   \<and> outcome (GetValue_spec 1 R (two_level [(6, 60)]) 5 []) = Some (Inr (False, []))"
  apply (cases fuel)
   apply (simp_all add: tree_defs two_level_def root3_def leaf_of_def split: option.splits)
  done

text \<open>
  Claim C2. \<open>Insert\<close> of a key that is in the tree is to return false and to leave the
  tree as it is, also when the leaf of the key is full. \<open>InsertIntoLeaf\<close> looks the key
  up only when the leaf has room; on a full leaf it splits and inserts. On the tree
  whose full root leaf holds the keys 1 and 2, \<open>Insert(1, 99)\<close> returns true and the
  leaf then holds the key 1 twice.
\<close>

theorem Insert_duplicate_into_full_leaf:
  "after_insert (Insert fuel R tree_full 1 99) 1 =
     Some (Inr (True,
       TreePage (leaf12\<lparr>max_size := 2, parent_page_id := 3, next_page_id := 0,
                         array := LeafArray [(1, 99), (1, 10)]\<rparr>)))"
  apply (cases fuel)
   apply (simp_all add: tree_defs tree_full_def pool_full_def pool_leaf12_def leaf12_def)
  done

text \<open>
  Claim C7. Every operation is to unpin what it fetched on every exit path, so that the
  pin counts are afterwards what they were before. The \<open>return false\<close> of
  \<open>InsertIntoLeaf\<close> for a key that is in the leaf comes before the \<open>UnpinPage\<close>: on the
  tree whose root leaf (page 1, with room) holds the keys 1 and 2, \<open>Insert(1, 99)\<close>
  returns false, changes no page, and leaves page 1 with the pin count 1 where it was 0.
\<close>

theorem Insert_duplicate_leaves_leaf_pinned:
  "Insert fuel R tree12 1 99 = ok (False, tree12\<lparr>bpm := pool_leaf12\<lparr>pin_table := [(1, 1)]\<rparr>\<rparr>)
   \<and> pin_count (bpm tree12) 1 = 0
   \<and> pin_count (pool_leaf12\<lparr>pin_table := [(1, 1)]\<rparr>) 1 = 1"
  apply (cases fuel)
   apply (simp_all add: tree_defs tree12_def pool_leaf12_def leaf12_def)
  done

text \<open>
  The \<open>return false\<close> at the end of \<open>GetValue\<close> (key not found) has no \<open>UnpinPage\<close>
  either: under the sample layout the call on the two-level tree returns false and
  leaves the root page 3 pinned.
\<close>

lemma GetValue_not_found_leaves_node_pinned:
  "map_option (map_sum id (\<lambda>(r, res, t). (r, pin_table (bpm t))))
     (GetValue fuel sample_layout (two_level [(6, 60)]) 5 [])
   = Some (Inr (False, [(3, 1)]))"
  apply (cases fuel)
   apply (simp_all add: tree_defs two_level_def root3_def leaf_of_def sample_layout_def)
  done

text \<open>
  \<open>Redistribute\<close> with a predecessor as neighbour fetches the parent and has no
  \<open>UnpinPage\<close>: if the page operation it calls leaves the pin counts alone, the parent
  has one pin more after the call.
\<close>

lemma map_of_filter_other:
  "map_of (filter (\<lambda>(q, c). q \<noteq> p) tbl) q = (if q = p then None else map_of tbl q)"
  by (induction tbl) auto

lemma pin_count_FetchPage:
  "FetchPage b p = (True, b1) \<Longrightarrow> pin_count b1 q = (if q = p then pin_count b p + 1 else pin_count b q)"
  by (auto simp: FetchPage_def pin_count_def set_pin_def Let_def map_of_filter_other
      split: if_splits option.splits)

lemma Redistribute_leaves_parent_pinned:
  assumes "\<And>b n m i. pin_table (move_last b n m i) = pin_table b"
    and "idx \<noteq> 0"
    and "Redistribute move_first move_last R b neighbor_node node idx = Some (Inr b2)"
  shows "pin_count b2 (parent_page_id (page_at R b node))
           = pin_count b (parent_page_id (page_at R b node)) + 1"
proof -
  let ?parent = "parent_page_id (page_at R b node)"
  obtain fetched b1 where f: "FetchPage b ?parent = (fetched, b1)"
    by (cases "FetchPage b ?parent")
  from assms(2,3) f have fetched
    by (auto simp: Redistribute_def fail_def ok_def split: if_splits)
  with assms(2,3) f obtain i where b2: "b2 = move_last b1 neighbor_node node i"
    by (auto simp: Redistribute_def ok_def)
  from f \<open>fetched\<close> have "pin_count b1 ?parent = pin_count b ?parent + 1"
    by (simp add: pin_count_FetchPage)
  moreover have "pin_count b2 ?parent = pin_count b1 ?parent"
    using assms(1) b2 by (simp add: pin_count_def)
  ultimately show ?thesis by simp
qed

end
